theory Spec2Isabelle
  imports Complex_Main "HOL-Library.Log_Nat"
begin

section \<open>JavaScript values the selector computes with\<close>

text \<open>
  The result of reading a JavaScript array cell, and of the computed \<open>currentQuote\<close>:
  \<open>undefined\<close>, \<open>null\<close>, or an element. The element type \<open>QuoteItem\<close> is declared in
  \<open>types/quote\<close>; nothing in the selector looks inside an element, so it is the type
  parameter \<open>'q\<close>.
\<close>

datatype 'q js_value = Undefined | Null | Item 'q

text \<open>
  A value of type \<open>number\<close>: \<open>NaN\<close>, an infinity, or a finite value. The two zeros are
  one value here; \<open>===\<close> and array indexing do not tell them apart.
\<close>

datatype js_number = NaN | PosInfinity | NegInfinity | Finite real

text \<open>\<open>a === b\<close> on numbers: \<open>NaN\<close> equals nothing, itself included.\<close>

fun strict_eq :: "js_number \<Rightarrow> js_number \<Rightarrow> bool" where
  "strict_eq NaN b = False"
| "strict_eq a NaN = False"
| "strict_eq a b = (a = b)"

text \<open>The number is an integer in \<open>[0, len)\<close>.\<close>

fun in_range :: "js_number \<Rightarrow> int \<Rightarrow> bool" where
  "in_range (Finite x) len = (of_int \<lfloor>x\<rfloor> = x \<and> 0 \<le> x \<and> x < of_int len)"
| "in_range n len = False"

text \<open>
  \<open>xs[n]\<close>: the cell when \<open>n\<close> is an integer that addresses one, and \<open>undefined\<close> for
  every other number (no such property); the read does not raise.
\<close>

fun array_get :: "'q list \<Rightarrow> js_number \<Rightarrow> 'q js_value" where
  "array_get xs (Finite x) =
     (if of_int \<lfloor>x\<rfloor> = x \<and> 0 \<le> x \<and> x < of_int (int (length xs))
      then Item (xs ! nat \<lfloor>x\<rfloor>) else Undefined)"
| "array_get xs n = Undefined"

text \<open>\<open>a ?? b\<close>: \<open>b\<close> when \<open>a\<close> is \<open>undefined\<close> or \<open>null\<close>, else \<open>a\<close>.\<close>

fun nullish :: "'q js_value \<Rightarrow> 'q js_value \<Rightarrow> 'q js_value" where
  "nullish Undefined b = b"
| "nullish Null b = b"
| "nullish (Item q) b = Item q"

subsection \<open>\<open>Math.floor(Math.random() * length)\<close> in binary64\<close>

text \<open>
  A non-negative double is \<open>mantissa * 2 ^ exponent\<close>. An output of \<open>Math.random()\<close> is
  a double in \<open>[0, 1)\<close>: a mantissa below \<open>2 ^ 53\<close>, an exponent of at least \<open>-1074\<close>,
  and a value below one.
\<close>

record float64 =
  mantissa :: int
  exponent :: int

definition random_value :: "float64 \<Rightarrow> bool" where
  "random_value r =
     (0 \<le> mantissa r \<and> mantissa r < 2 ^ 53 \<and> - 1074 \<le> exponent r
      \<and> (mantissa r = 0 \<or> (exponent r < 0 \<and> mantissa r < 2 ^ nat (- exponent r))))"

definition random_ok :: "float64 list \<Rightarrow> bool" where
  "random_ok rs = list_all random_value rs"

text \<open>
  The product of two doubles is the exact product rounded to 53 significant bits, ties
  to the even mantissa. \<open>round_even_shift m k\<close> is \<open>m / 2 ^ k\<close> rounded that way;
  \<open>round53\<close> drops the bits a mantissa has beyond 53. The second factor is the array
  length, an integer below \<open>2 ^ 32\<close> and so a double itself; the exact product then has
  the exponent of the first factor, which keeps it clear of the subnormal range
  whenever bits are dropped, and its value stays below the length, far from overflow.
\<close>

definition round_even_shift :: "int \<Rightarrow> nat \<Rightarrow> int" where
  "round_even_shift m k =
     (let q = m div 2 ^ k; rest = m mod 2 ^ k
      in if 2 * rest < 2 ^ k then q
         else if 2 ^ k < 2 * rest then q + 1
         else if even q then q else q + 1)"

definition round53 :: "int \<Rightarrow> int \<Rightarrow> float64" where
  "round53 m e =
     (let k = bitlen m - 53
      in if k \<le> 0 then \<lparr>mantissa = m, exponent = e\<rparr>
         else \<lparr>mantissa = round_even_shift m (nat k), exponent = e + k\<rparr>)"

definition times_length :: "float64 \<Rightarrow> int \<Rightarrow> float64" where
  "times_length r len = round53 (mantissa r * len) (exponent r)"

definition Math_floor :: "float64 \<Rightarrow> int" where
  "Math_floor x =
     (if 0 \<le> exponent x then mantissa x * 2 ^ nat (exponent x)
      else mantissa x div 2 ^ nat (- exponent x))"

definition draw :: "float64 \<Rightarrow> int \<Rightarrow> int" where
  "draw r len = Math_floor (times_length r len)"

section \<open>Quote selector (src/composables/useQuotes.ts)\<close>

text \<open>
  The state of one \<open>useQuotes()\<close> instance: the module constant \<open>quotes\<close> and the
  \<open>currentIndex\<close> ref, which holds a number.
\<close>

record 'q quote_state =
  quotes :: "'q list"
  currentIndex :: js_number

text \<open>
  \<^verbatim>\<open>
  const currentQuote = computed<QuoteItem | null>(() => {
      if (!quotes.length) return null;
      return quotes[currentIndex.value] ?? null;
  });
  \<close>
\<close>

definition currentQuote :: "'q quote_state \<Rightarrow> 'q js_value" where
  "currentQuote s =
     (if length (quotes s) = 0 then Null
      else nullish (array_get (quotes s) (currentIndex s)) Null)"

text \<open>
  \<^verbatim>\<open>
  function pickNewIndex(current: number, length: number): number {
      if (length <= 1) return 0;
      let next = current;
      while (next === current) {
          next = Math.floor(Math.random() * length);
      }
      return next;
  }
  \<close>
  The outputs of \<open>Math.random()\<close> still to come are a list of doubles. The loop consumes
  one output per iteration and stops at the first draw that is not \<open>===\<close> to
  \<open>current\<close>; when \<open>current\<close> is \<open>NaN\<close> the test fails before any draw. The loop has no
  retry bound: when the outputs run out before a differing draw, the run has not
  returned, which is \<open>None\<close>. A run that returns gives the number and the outputs left.
  The only caller passes \<open>quotes.length\<close>, so \<open>length\<close> is an integer.
\<close>

fun draw_loop :: "js_number \<Rightarrow> js_number \<Rightarrow> int \<Rightarrow> float64 list \<Rightarrow> (js_number \<times> float64 list) option" where
  "draw_loop nxt current len [] = (if strict_eq nxt current then None else Some (nxt, []))"
| "draw_loop nxt current len (r # rs) =
     (if strict_eq nxt current then draw_loop (Finite (of_int (draw r len))) current len rs
      else Some (nxt, r # rs))"

definition pickNewIndex :: "js_number \<Rightarrow> int \<Rightarrow> float64 list \<Rightarrow> (js_number \<times> float64 list) option" where
  "pickNewIndex current len rs =
     (if len \<le> 1 then Some (Finite 0, rs) else draw_loop current current len rs)"

text \<open>
  \<^verbatim>\<open>
  const currentIndex = ref(0);
  function nextQuote() {
      currentIndex.value = pickNewIndex(currentIndex.value, quotes.length);
  }
  \<close>
\<close>

definition useQuotes :: "'q list \<Rightarrow> 'q quote_state" where
  "useQuotes qs = \<lparr>quotes = qs, currentIndex = Finite 0\<rparr>"

definition nextQuote :: "'q quote_state \<Rightarrow> float64 list \<Rightarrow> ('q quote_state \<times> float64 list) option" where
  "nextQuote s rs =
     (case pickNewIndex (currentIndex s) (int (length (quotes s))) rs of
        None \<Rightarrow> None
      | Some (n, rs') \<Rightarrow> Some (s\<lparr>currentIndex := n\<rparr>, rs'))"

text \<open>The range invariant of the index: it addresses a cell of the collection.\<close>

definition index_in_range :: "'q quote_state \<Rightarrow> bool" where
  "index_in_range s = in_range (currentIndex s) (int (length (quotes s)))"

text \<open>
  The invariant of the selection state: the index addresses a cell whenever there is
  one. With an empty collection the index means nothing.
\<close>

definition selection_invariant :: "'q quote_state \<Rightarrow> bool" where
  "selection_invariant s = (quotes s = [] \<or> index_in_range s)"

section \<open>Theme toggle (src/components/ThemeToggle.vue)\<close>

text \<open>
  What the component reads and writes: its \<open>isDark\<close> ref, the origin's storage, the
  platform's media query and the \<open>data-theme\<close> attribute of the document element.
  \<open>localStorage = None\<close> is a platform that denies storage access: there every call on
  \<open>localStorage\<close> raises. \<open>matchMedia = None\<close> is a platform where \<open>window\<close> is undefined
  or \<open>window.matchMedia\<close> is not a function; otherwise it maps a media query to its
  \<open>matches\<close> flag.
\<close>

datatype js_error = SecurityError

record theme_state =
  isDark :: bool
  localStorage :: "(string \<rightharpoonup> string) option"
  matchMedia :: "(string \<Rightarrow> bool) option"
  data_theme :: "string option"

definition STORAGE_KEY :: string where
  "STORAGE_KEY = ''good-mood.theme''"

text \<open>
  An operation returns its outcome (\<open>Inl\<close> the exception that leaves it) and the state it
  leaves behind: what was written before an exception stays written.
\<close>

definition getItem :: "string \<Rightarrow> theme_state \<Rightarrow> (js_error + string option) \<times> theme_state" where
  "getItem k s =
     (case localStorage s of
        None \<Rightarrow> (Inl SecurityError, s)
      | Some m \<Rightarrow> (Inr (m k), s))"

definition setItem :: "string \<Rightarrow> string \<Rightarrow> theme_state \<Rightarrow> (js_error + unit) \<times> theme_state" where
  "setItem k v s =
     (case localStorage s of
        None \<Rightarrow> (Inl SecurityError, s)
      | Some m \<Rightarrow> (Inr (), s\<lparr>localStorage := Some (m(k \<mapsto> v))\<rparr>))"

text \<open>
  \<^verbatim>\<open>
  function applyTheme(dark: boolean) {
      const theme = dark ? "dark" : "light";
      document.documentElement.setAttribute("data-theme", theme);
      localStorage.setItem(STORAGE_KEY, theme);
  }
  \<close>
\<close>

definition theme_name :: "bool \<Rightarrow> string" where
  "theme_name dark = (if dark then ''dark'' else ''light'')"

definition applyTheme :: "bool \<Rightarrow> theme_state \<Rightarrow> (js_error + unit) \<times> theme_state" where
  "applyTheme dark s =
     (let theme = theme_name dark
      in setItem STORAGE_KEY theme (s\<lparr>data_theme := Some theme\<rparr>))"

text \<open>
  \<^verbatim>\<open>
  typeof window !== "undefined" &&
  typeof window.matchMedia === "function" &&
  window.matchMedia("(prefers-color-scheme: dark)").matches
  \<close>
\<close>

definition prefersDark :: "theme_state \<Rightarrow> bool" where
  "prefersDark s =
     (case matchMedia s of
        None \<Rightarrow> False
      | Some mm \<Rightarrow> mm ''(prefers-color-scheme: dark)'')"

text \<open>
  \<^verbatim>\<open>
  onMounted(() => {
      const saved = localStorage.getItem(STORAGE_KEY);
      if (saved === "dark" || saved === "light") {
          isDark.value = saved === "dark";
      } else {
          isDark.value = <the expression above>;
      }
      applyTheme(isDark.value);
  });
  \<close>
  There is no \<open>try\<close> in the hook: an exception of \<open>getItem\<close> leaves it at once.
  The component's watcher on \<open>isDark\<close> calls \<open>applyTheme\<close> with the value just
  assigned, which writes the same attribute and the same stored string again.
\<close>

definition onMounted :: "theme_state \<Rightarrow> (js_error + unit) \<times> theme_state" where
  "onMounted s =
     (case getItem STORAGE_KEY s of
        (Inl e, s1) \<Rightarrow> (Inl e, s1)
      | (Inr saved, s1) \<Rightarrow>
          (let s2 = (if saved = Some ''dark'' \<or> saved = Some ''light''
                     then s1\<lparr>isDark := (saved = Some ''dark'')\<rparr>
                     else s1\<lparr>isDark := prefersDark s1\<rparr>)
           in applyTheme (isDark s2) s2))"

text \<open>
  A reload keeps the storage and the platform; the component instance is new
  (\<open>isDark = ref(false)\<close>) and the attribute is whatever the page's markup gives it.
\<close>

definition reload :: "string option \<Rightarrow> theme_state \<Rightarrow> theme_state" where
  "reload attr s = s\<lparr>isDark := False, data_theme := attr\<rparr>"

section \<open>Properties of the draw\<close>

text \<open>
  Rounding moves the mantissa by at most half a unit in the last place, and the largest
  output below one is \<open>1 - 2 ^ -53\<close>; together they keep the floor of the rounded
  product below the length.
\<close>

lemma round_even_shift_bounds:
  assumes "0 \<le> m"
  shows "0 \<le> round_even_shift m k"
    and "2 * (round_even_shift m k * 2 ^ k) \<le> 2 * m + 2 ^ k"
proof -
  define q where "q = m div 2 ^ k"
  define rest where "rest = m mod 2 ^ k"
  have m: "m = q * 2 ^ k + rest"
    using div_mult_mod_eq [of m "2 ^ k"] by (simp add: q_def rest_def)
  have q0: "0 \<le> q"
    using assms by (simp add: q_def pos_imp_zdiv_nonneg_iff)
  have r0: "0 \<le> rest"
    by (simp add: rest_def)
  have cases: "round_even_shift m k = q \<or> (round_even_shift m k = q + 1 \<and> 2 ^ k \<le> 2 * rest)"
    by (auto simp: round_even_shift_def Let_def q_def rest_def)
  from cases q0 show "0 \<le> round_even_shift m k"
    by auto
  from cases show "2 * (round_even_shift m k * 2 ^ k) \<le> 2 * m + 2 ^ k"
  proof
    assume "round_even_shift m k = q"
    with m r0 show ?thesis by simp
  next
    assume a: "round_even_shift m k = q + 1 \<and> 2 ^ k \<le> 2 * rest"
    then have "2 * (round_even_shift m k * 2 ^ k) = 2 * (q * 2 ^ k) + 2 * 2 ^ k"
      by (simp add: algebra_simps)
    also have "\<dots> \<le> 2 * (q * 2 ^ k) + 2 * rest + 2 ^ k"
      using a by simp
    also have "\<dots> = 2 * m + 2 ^ k"
      using m by simp
    finally show ?thesis .
  qed
qed

lemma unit_mantissa_bound:
  fixes m :: int
  assumes "m < 2 ^ 53" and "m < 2 ^ E"
  shows "m * 2 ^ 53 \<le> 2 ^ E * (2 ^ 53 - 1)"
proof (cases "E \<le> 53")
  case True
  then have le: "(2::int) ^ E \<le> 2 ^ 53"
    by (intro power_increasing) simp_all
  from assms(2) have "m \<le> 2 ^ E - 1" by simp
  then have "m * 2 ^ 53 \<le> (2 ^ E - 1) * 2 ^ 53"
    by (rule mult_right_mono) simp
  also have "\<dots> = 2 ^ E * 2 ^ 53 - 2 ^ 53"
    by (simp add: algebra_simps)
  also have "\<dots> \<le> 2 ^ E * 2 ^ 53 - 2 ^ E"
    using le by simp
  also have "\<dots> = 2 ^ E * (2 ^ 53 - 1)"
    by (simp add: algebra_simps)
  finally show ?thesis .
next
  case False
  then have le: "(2::int) ^ 53 \<le> 2 ^ E"
    by (intro power_increasing) simp_all
  from assms(1) have "m \<le> 2 ^ 53 - 1" by simp
  then have "m * 2 ^ 53 \<le> (2 ^ 53 - 1) * 2 ^ 53"
    by (rule mult_right_mono) simp
  also have "\<dots> \<le> (2 ^ 53 - 1) * 2 ^ E"
    using le by (intro mult_left_mono) simp_all
  finally show ?thesis by (simp add: mult.commute)
qed

lemma int_div_less:
  fixes p d len :: int
  assumes "0 < d" and "p < len * d"
  shows "p div d < len"
proof (rule ccontr)
  assume "\<not> p div d < len"
  then have "len * d \<le> (p div d) * d"
    using assms(1) by (intro mult_right_mono) simp_all
  also have "\<dots> \<le> p"
    using div_mult_mod_eq [of p d] pos_mod_sign [OF assms(1), of p] by linarith
  finally show False
    using assms(2) by simp
qed

lemma Math_floor_less:
  assumes "0 \<le> p" and "p * 2 ^ K < len * 2 ^ E"
  shows "0 \<le> Math_floor \<lparr>mantissa = p, exponent = int K - int E\<rparr>"
    and "Math_floor \<lparr>mantissa = p, exponent = int K - int E\<rparr> < len"
proof -
  show "0 \<le> Math_floor \<lparr>mantissa = p, exponent = int K - int E\<rparr>"
    using assms(1) by (simp add: Math_floor_def pos_imp_zdiv_nonneg_iff)
  show "Math_floor \<lparr>mantissa = p, exponent = int K - int E\<rparr> < len"
  proof (cases "E \<le> K")
    case True
    then have "(2::int) ^ K = 2 ^ (K - E) * 2 ^ E"
      by (simp flip: power_add)
    with assms(2) have "(p * 2 ^ (K - E)) * 2 ^ E < len * 2 ^ E"
      by (simp add: mult.assoc)
    then have "p * 2 ^ (K - E) < len"
      by simp
    with True show ?thesis
      by (simp add: Math_floor_def nat_diff_distrib)
  next
    case False
    then have "(2::int) ^ E = 2 ^ (E - K) * 2 ^ K"
      by (simp flip: power_add)
    with assms(2) have "p * 2 ^ K < (len * 2 ^ (E - K)) * 2 ^ K"
      by (simp add: mult.assoc)
    then have "p < len * 2 ^ (E - K)"
      by simp
    then have "p div 2 ^ (E - K) < len"
      by (intro int_div_less) simp_all
    moreover from False have "nat (int E - int K) = E - K" by simp
    ultimately show ?thesis
      using False by (simp add: Math_floor_def)
  qed
qed

lemma draw_in_range:
  assumes r: "random_value r" and len: "0 < len"
  shows "0 \<le> draw r len \<and> draw r len < len"
proof (cases "mantissa r = 0")
  case True
  with len show ?thesis
    by (simp add: draw_def times_length_def round53_def Math_floor_def)
next
  case False
  define m where "m = mantissa r"
  define E where "E = nat (- exponent r)"
  define M where "M = m * len"
  from r False have m0: "0 < m" and m53: "m < 2 ^ 53" and e: "exponent r = - int E"
    and mE: "m < 2 ^ E"
    by (auto simp: random_value_def m_def E_def)
  from m0 len have M0: "0 < M"
    by (simp add: M_def)
  from mE len have ME: "M < len * 2 ^ E"
    by (simp add: M_def mult.commute)
  show ?thesis
  proof (cases "bitlen M - 53 \<le> 0")
    case True
    then have t: "times_length r len = \<lparr>mantissa = M, exponent = int 0 - int E\<rparr>"
      by (simp add: times_length_def round53_def M_def m_def e)
    from M0 ME Math_floor_less [of M 0 len E] show ?thesis
      by (simp add: draw_def t)
  next
    case False
    define K where "K = nat (bitlen M - 53)"
    define p where "p = round_even_shift M K"
    from False have k: "bitlen M - 53 = int K" and K0: "0 < K"
      by (simp_all add: K_def)
    from False have t: "times_length r len = \<lparr>mantissa = p, exponent = int K - int E\<rparr>"
      by (simp add: times_length_def round53_def Let_def M_def m_def e p_def K_def)
    from M0 have p0: "0 \<le> p" and pM: "2 * (p * 2 ^ K) \<le> 2 * M + 2 ^ K"
      using round_even_shift_bounds [of M K] by (simp_all add: p_def)
    from k have "nat (bitlen M - 1) = 52 + K"
      by simp
    with bitlen_bounds [OF M0] have low: "2 ^ (52 + K) \<le> M"
      by simp
    have "M * 2 ^ 53 = (m * 2 ^ 53) * len"
      by (simp add: M_def)
    also have "\<dots> \<le> (2 ^ E * (2 ^ 53 - 1)) * len"
      using unit_mantissa_bound [OF m53 mE] len by (intro mult_right_mono) simp_all
    also have "\<dots> = len * 2 ^ E * 2 ^ 53 - len * 2 ^ E"
      by (simp add: algebra_simps)
    finally have up: "M * 2 ^ 53 \<le> len * 2 ^ E * 2 ^ 53 - len * 2 ^ E" .
    have "(2 * (p * 2 ^ K)) * 2 ^ 52 \<le> (2 * M + 2 ^ K) * 2 ^ 52"
      using pM by (intro mult_right_mono) simp_all
    also have "\<dots> = M * 2 ^ 53 + 2 ^ (52 + K)"
      by (simp add: algebra_simps power_add)
    also have "\<dots> < len * 2 ^ E * 2 ^ 53"
      using up low ME by linarith
    finally have "(p * 2 ^ K) * 2 ^ 53 < (len * 2 ^ E) * 2 ^ 53"
      by simp
    then have "p * 2 ^ K < len * 2 ^ E"
      by simp
    from Math_floor_less [OF p0 this] show ?thesis
      by (simp add: draw_def t)
  qed
qed

section \<open>Properties of the quote selector\<close>

text \<open>
  Two outputs on which the rounded product and the exact one fall on different sides of
  an integer: \<open>1228254443828317 / 2 ^ 52\<close> times \<open>11\<close>, and \<open>0.6666666666666666\<close>
  times \<open>3\<close>.
\<close>

lemma draw_rounds_up_to_3:
  "draw \<lparr>mantissa = 1228254443828317, exponent = - 52\<rparr> 11 = 3
   \<and> (1228254443828317 * 11) div (2 ^ 52 :: int) = 2"
  by (simp add: draw_def times_length_def round53_def round_even_shift_def Math_floor_def
      compute_bitlen)

lemma draw_rounds_up_to_2:
  "draw \<lparr>mantissa = 6004799503160661, exponent = - 53\<rparr> 3 = 2
   \<and> (6004799503160661 * 3) div (2 ^ 53 :: int) = 1"
  by (simp add: draw_def times_length_def round53_def round_even_shift_def Math_floor_def
      compute_bitlen)

lemma strict_eq_iff: "strict_eq a b = (a = b \<and> a \<noteq> NaN)"
  by (cases a; cases b) auto

lemma in_range_draw:
  assumes "random_value r" and "0 < len"
  shows "in_range (Finite (of_int (draw r len))) len"
  using draw_in_range [OF assms] by simp

lemma draw_loop_result:
  assumes "draw_loop nxt current len rs = Some (n, rs')"
  shows "\<not> strict_eq n current \<and> (n = nxt \<or> (\<exists>r \<in> set rs. n = Finite (of_int (draw r len))))"
  using assms
  by (induction rs arbitrary: nxt) (auto split: if_splits)

lemma draw_loop_in_range:
  assumes "draw_loop current current len rs = Some (n, rs')"
    and "random_ok rs" and "0 < len" and "current \<noteq> NaN"
  shows "in_range n len \<and> n \<noteq> current"
proof -
  from draw_loop_result [OF assms(1)]
  have ne: "\<not> strict_eq n current"
    and src: "n = current \<or> (\<exists>r \<in> set rs. n = Finite (of_int (draw r len)))"
    by simp_all
  from ne assms(4) have diff: "n \<noteq> current"
    by (auto simp: strict_eq_iff)
  with src obtain r where "r \<in> set rs" and n: "n = Finite (of_int (draw r len))"
    by auto
  with assms(2) have "random_value r"
    by (simp add: random_ok_def list_all_iff)
  from in_range_draw [OF this assms(3)] n diff show ?thesis
    by simp
qed

lemma draw_loop_NaN: "draw_loop NaN NaN len rs = Some (NaN, rs)"
  by (cases rs) simp_all

text \<open>
  The loop adopts the first draw that differs from \<open>current\<close>, and it returns as soon
  as the outputs to come hold such a draw.
\<close>

lemma draw_loop_first_differing:
  "draw_loop nxt current len rs =
     (if \<not> strict_eq nxt current then Some (nxt, rs)
      else (case dropWhile (\<lambda>r. strict_eq (Finite (of_int (draw r len))) current) rs of
              [] \<Rightarrow> None
            | r # rs' \<Rightarrow> Some (Finite (of_int (draw r len)), rs')))"
  by (induction rs arbitrary: nxt) auto

lemma draw_loop_returns:
  assumes "\<exists>r \<in> set rs. \<not> strict_eq (Finite (of_int (draw r len))) current"
  shows "\<exists>n rs'. draw_loop nxt current len rs = Some (n, rs')"
proof (cases "dropWhile (\<lambda>r. strict_eq (Finite (of_int (draw r len))) current) rs")
  case Nil
  with assms show ?thesis by (auto simp: dropWhile_eq_Nil_conv)
next
  case (Cons r rs')
  then show ?thesis by (simp add: draw_loop_first_differing)
qed

lemma pickNewIndex_returns:
  assumes "len \<le> 1 \<or> (\<exists>r \<in> set rs. \<not> strict_eq (Finite (of_int (draw r len))) current)"
  shows "\<exists>n rs'. pickNewIndex current len rs = Some (n, rs')"
  using assms draw_loop_returns [of rs len current current]
  by (auto simp: pickNewIndex_def)

lemma pickNewIndex_in_range:
  assumes "pickNewIndex current len rs = Some (n, rs')"
    and "random_ok rs" and "1 \<le> len" and "current \<noteq> NaN \<or> len = 1"
  shows "in_range n len"
proof (cases "len \<le> 1")
  case True
  with assms show ?thesis by (auto simp: pickNewIndex_def)
next
  case False
  with assms(1) have loop: "draw_loop current current len rs = Some (n, rs')"
    by (simp add: pickNewIndex_def)
  from False assms(4) have "current \<noteq> NaN" by auto
  from draw_loop_in_range [OF loop assms(2) _ this] assms(3) show ?thesis
    by simp
qed

lemma pickNewIndex_different:
  assumes "pickNewIndex current len rs = Some (n, rs')" and "2 \<le> len"
    and "current \<noteq> NaN"
  shows "n \<noteq> current"
proof -
  from assms have "draw_loop current current len rs = Some (n, rs')"
    by (simp add: pickNewIndex_def)
  from draw_loop_result [OF this] assms(3) show ?thesis
    by (auto simp: strict_eq_iff)
qed

lemma pickNewIndex_NaN:
  "pickNewIndex NaN len rs = (if len \<le> 1 then Some (Finite 0, rs) else Some (NaN, rs))"
  by (simp add: pickNewIndex_def draw_loop_NaN)

lemma nextQuote_SomeD:
  assumes "nextQuote s rs = Some (s', rs')"
  shows "pickNewIndex (currentIndex s) (int (length (quotes s))) rs = Some (currentIndex s', rs')"
    and "s' = s\<lparr>currentIndex := currentIndex s'\<rparr>"
    and "quotes s' = quotes s"
  using assms by (auto simp: nextQuote_def split: option.splits)

text \<open>
  C1. With at least two quotes and any current index, the index that \<open>nextQuote\<close>
  stores (the result of \<open>pickNewIndex\<close>) is an integer in \<open>[0, length)\<close> and differs
  from the index before the call, for every sequence of \<open>Math.random()\<close> outputs on
  which the rejection loop returns. The current index is any number but \<open>NaN\<close>, in
  range or not.
\<close>

theorem nextQuote_in_range_and_different:
  assumes "2 \<le> length (quotes s)" and "random_ok rs"
    and "nextQuote s rs = Some (s', rs')" and "currentIndex s \<noteq> NaN"
  shows "in_range (currentIndex s') (int (length (quotes s)))
         \<and> currentIndex s' \<noteq> currentIndex s"
proof -
  from nextQuote_SomeD(1) [OF assms(3)]
  have p: "pickNewIndex (currentIndex s) (int (length (quotes s))) rs = Some (currentIndex s', rs')" .
  from assms(1) have len: "2 \<le> int (length (quotes s))" by simp
  then have "1 \<le> int (length (quotes s))" by simp
  from pickNewIndex_in_range [OF p assms(2) this] pickNewIndex_different [OF p len] assms(4)
  show ?thesis by simp
qed

theorem nextQuote_in_range_and_different_witness:
  "2 \<le> length (quotes \<lparr>quotes = [''A'', ''B'', ''C''], currentIndex = Finite 1\<rparr>)
   \<and> random_ok [\<lparr>mantissa = 1, exponent = - 1\<rparr>, \<lparr>mantissa = 6004799503160661, exponent = - 53\<rparr>,
        \<lparr>mantissa = 1, exponent = - 2\<rparr>]
   \<and> nextQuote \<lparr>quotes = [''A'', ''B'', ''C''], currentIndex = Finite 1\<rparr>
        [\<lparr>mantissa = 1, exponent = - 1\<rparr>, \<lparr>mantissa = 6004799503160661, exponent = - 53\<rparr>,
         \<lparr>mantissa = 1, exponent = - 2\<rparr>]
       = Some (\<lparr>quotes = [''A'', ''B'', ''C''], currentIndex = Finite 2\<rparr>, [\<lparr>mantissa = 1, exponent = - 2\<rparr>])
   \<and> currentIndex \<lparr>quotes = [''A'', ''B'', ''C''], currentIndex = Finite 1\<rparr> \<noteq> NaN
   \<and> in_range (currentIndex \<lparr>quotes = [''A'', ''B'', ''C''], currentIndex = Finite 2\<rparr>)
        (int (length (quotes \<lparr>quotes = [''A'', ''B'', ''C''], currentIndex = Finite 1\<rparr>)))
   \<and> currentIndex \<lparr>quotes = [''A'', ''B'', ''C''], currentIndex = Finite 2\<rparr>
       \<noteq> currentIndex \<lparr>quotes = [''A'', ''B'', ''C''], currentIndex = Finite 1\<rparr>"
proof -
  let ?rs = "[\<lparr>mantissa = 1, exponent = - 1\<rparr>, \<lparr>mantissa = 6004799503160661, exponent = - 53\<rparr>,
        \<lparr>mantissa = 1, exponent = - 2\<rparr>]"
  let ?s = "\<lparr>quotes = [''A'', ''B'', ''C''], currentIndex = Finite 1\<rparr>"
  have len: "2 \<le> length (quotes ?s)"
    by simp
  have ok: "random_ok ?rs"
    by (simp add: random_ok_def random_value_def)
  have d1: "draw \<lparr>mantissa = 1, exponent = - 1\<rparr> 3 = 1"
    by (simp add: draw_def times_length_def round53_def round_even_shift_def Math_floor_def
        compute_bitlen)
  have d2: "draw \<lparr>mantissa = 6004799503160661, exponent = - 53\<rparr> 3 = 2"
    by (simp add: draw_def times_length_def round53_def round_even_shift_def Math_floor_def
        compute_bitlen)
  have run: "nextQuote ?s ?rs
       = Some (\<lparr>quotes = [''A'', ''B'', ''C''], currentIndex = Finite 2\<rparr>, [\<lparr>mantissa = 1, exponent = - 2\<rparr>])"
    by (simp add: nextQuote_def pickNewIndex_def d1 d2)
  have nn: "currentIndex ?s \<noteq> NaN"
    by simp
  from nextQuote_in_range_and_different [OF len ok run nn] len ok run nn
  show ?thesis by simp
qed

text \<open>
  C2. With no quote or exactly one, \<open>nextQuote\<close> returns for every sequence of random
  outputs (it draws none) and sets the index to \<open>0\<close>. With exactly one quote the quote
  shown afterwards is that one, the same as before the call when the index was in range.
\<close>

theorem nextQuote_empty_or_singleton:
  assumes "length (quotes s) \<le> 1"
  shows "nextQuote s rs = Some (s\<lparr>currentIndex := Finite 0\<rparr>, rs)
       \<and> (\<forall>q. quotes s = [q] \<longrightarrow>
             currentQuote (s\<lparr>currentIndex := Finite 0\<rparr>) = Item q
             \<and> (index_in_range s \<longrightarrow> currentQuote s = Item q))"
proof -
  from assms have "nextQuote s rs = Some (s\<lparr>currentIndex := Finite 0\<rparr>, rs)"
    by (simp add: nextQuote_def pickNewIndex_def)
  moreover have "currentQuote (s\<lparr>currentIndex := Finite 0\<rparr>) = Item q" if "quotes s = [q]" for q
    using that by (simp add: currentQuote_def)
  moreover have "currentQuote s = Item q" if "quotes s = [q]" and "index_in_range s" for q
  proof -
    from that obtain x where x: "currentIndex s = Finite x" and "of_int \<lfloor>x\<rfloor> = x"
      and "0 \<le> x" and "x < 1"
      by (cases "currentIndex s") (auto simp: index_in_range_def)
    from \<open>0 \<le> x\<close> \<open>x < 1\<close> have "\<lfloor>x\<rfloor> = 0"
      by (intro floor_unique) simp_all
    with \<open>of_int \<lfloor>x\<rfloor> = x\<close> have "x = 0"
      by simp
    with x that(1) show ?thesis
      by (simp add: currentQuote_def)
  qed
  ultimately show ?thesis by blast
qed

theorem nextQuote_empty_or_singleton_witness:
  "length (quotes \<lparr>quotes = [''A''], currentIndex = Finite 0\<rparr>) \<le> 1
   \<and> nextQuote \<lparr>quotes = [''A''], currentIndex = Finite 0\<rparr> []
       = Some (\<lparr>quotes = [''A''], currentIndex = Finite 0\<rparr>, [])
   \<and> currentQuote \<lparr>quotes = [''A''], currentIndex = Finite 0\<rparr> = Item ''A''
   \<and> length (quotes \<lparr>quotes = ([] :: string list), currentIndex = Finite 0\<rparr>) \<le> 1
   \<and> nextQuote \<lparr>quotes = ([] :: string list), currentIndex = Finite 0\<rparr> []
       = Some (\<lparr>quotes = [], currentIndex = Finite 0\<rparr>, [])"
proof -
  have l1: "length (quotes \<lparr>quotes = [''A''], currentIndex = Finite 0\<rparr>) \<le> 1"
    by simp
  have l0: "length (quotes \<lparr>quotes = ([] :: string list), currentIndex = Finite 0\<rparr>) \<le> 1"
    by simp
  have r: "index_in_range \<lparr>quotes = [''A''], currentIndex = Finite 0\<rparr>"
    by (simp add: index_in_range_def)
  from nextQuote_empty_or_singleton [OF l1, of "[]"] nextQuote_empty_or_singleton [OF l0, of "[]"] l1 l0 r
  show ?thesis by simp
qed

text \<open>
  C3. \<open>currentQuote\<close> is \<open>null\<close> if and only if the collection is empty, and with a
  non-empty collection it is the quote at the index: in every state that satisfies the
  selection invariant. The state \<open>useQuotes\<close> creates satisfies the invariant, and
  \<open>nextQuote\<close> keeps it, so these are the states of a session.
\<close>

theorem currentQuote_null_iff_empty:
  "(selection_invariant s \<longrightarrow>
      (currentQuote s = Null) = (quotes s = [])
      \<and> (quotes s \<noteq> [] \<longrightarrow>
           (\<exists>i < length (quotes s). currentIndex s = Finite (of_nat i)
              \<and> currentQuote s = Item (quotes s ! i))))
   \<and> selection_invariant (useQuotes qs)
   \<and> (selection_invariant s \<and> random_ok rs \<and> nextQuote s rs = Some (s', rs')
        \<longrightarrow> selection_invariant s')"
proof -
  have at_index: "\<exists>i < length (quotes s). currentIndex s = Finite (of_nat i)
              \<and> currentQuote s = Item (quotes s ! i)"
    if inv: "selection_invariant s" and ne: "quotes s \<noteq> []"
  proof -
    from inv ne obtain x where x: "currentIndex s = Finite x" and int: "of_int \<lfloor>x\<rfloor> = x"
      and lo: "0 \<le> x" and hi: "x < of_int (int (length (quotes s)))"
      by (cases "currentIndex s") (auto simp: selection_invariant_def index_in_range_def)
    define i where "i = nat \<lfloor>x\<rfloor>"
    from lo have "0 \<le> \<lfloor>x\<rfloor>" by simp
    then have "of_int \<lfloor>x\<rfloor> = (of_nat i :: real)"
      by (simp add: i_def)
    with int have xi: "x = of_nat i"
      by simp
    with hi have "i < length (quotes s)" by simp
    moreover from x xi have "currentIndex s = Finite (of_nat i)" by simp
    moreover from x int lo hi ne have "currentQuote s = Item (quotes s ! i)"
      by (simp add: currentQuote_def i_def)
    ultimately show ?thesis by blast
  qed
  have read: "(currentQuote s = Null) = (quotes s = [])" if inv: "selection_invariant s"
  proof (cases "quotes s = []")
    case True
    then show ?thesis by (simp add: currentQuote_def)
  next
    case False
    with at_index [OF inv] show ?thesis by auto
  qed
  have init: "selection_invariant (useQuotes qs)"
    by (cases qs) (simp_all add: selection_invariant_def index_in_range_def useQuotes_def)
  have step: "selection_invariant s'"
    if inv: "selection_invariant s" and ok: "random_ok rs" and run: "nextQuote s rs = Some (s', rs')"
  proof (cases "quotes s")
    case Nil
    with nextQuote_SomeD(3) [OF run] show ?thesis
      by (simp add: selection_invariant_def)
  next
    case (Cons q qs')
    then have len: "1 \<le> int (length (quotes s))" by simp
    from Cons inv have "currentIndex s \<noteq> NaN"
      by (auto simp: selection_invariant_def index_in_range_def)
    then have "currentIndex s \<noteq> NaN \<or> int (length (quotes s)) = 1" ..
    from pickNewIndex_in_range [OF nextQuote_SomeD(1) [OF run] ok len this]
      nextQuote_SomeD(3) [OF run]
    show ?thesis by (simp add: selection_invariant_def index_in_range_def)
  qed
  show ?thesis
  proof (intro conjI impI)
    assume "selection_invariant s"
    then show "(currentQuote s = Null) = (quotes s = [])"
      by (rule read)
  next
    assume "selection_invariant s" and "quotes s \<noteq> []"
    then show "\<exists>i < length (quotes s). currentIndex s = Finite (of_nat i)
              \<and> currentQuote s = Item (quotes s ! i)"
      by (rule at_index)
  next
    show "selection_invariant (useQuotes qs)"
      by (rule init)
  next
    assume "selection_invariant s \<and> random_ok rs \<and> nextQuote s rs = Some (s', rs')"
    then show "selection_invariant s'"
      using step by blast
  qed
qed

theorem currentQuote_null_iff_empty_witness:
  "selection_invariant \<lparr>quotes = [''A'', ''B''], currentIndex = Finite 0\<rparr>
   \<and> currentQuote \<lparr>quotes = [''A'', ''B''], currentIndex = Finite 0\<rparr> \<noteq> Null
   \<and> selection_invariant \<lparr>quotes = ([] :: string list), currentIndex = Finite 0\<rparr>
   \<and> currentQuote \<lparr>quotes = ([] :: string list), currentIndex = Finite 0\<rparr> = Null
   \<and> random_ok [\<lparr>mantissa = 3, exponent = - 2\<rparr>]
   \<and> nextQuote \<lparr>quotes = [''A'', ''B''], currentIndex = Finite 0\<rparr> [\<lparr>mantissa = 3, exponent = - 2\<rparr>]
        = Some (\<lparr>quotes = [''A'', ''B''], currentIndex = Finite 1\<rparr>, [])
   \<and> selection_invariant \<lparr>quotes = [''A'', ''B''], currentIndex = Finite 1\<rparr>"
proof -
  have i1: "selection_invariant \<lparr>quotes = [''A'', ''B''], currentIndex = Finite 0\<rparr>"
    by (simp add: selection_invariant_def index_in_range_def)
  have i0: "selection_invariant \<lparr>quotes = ([] :: string list), currentIndex = Finite 0\<rparr>"
    by (simp add: selection_invariant_def)
  have ok: "random_ok [\<lparr>mantissa = 3, exponent = - 2\<rparr>]"
    by (simp add: random_ok_def random_value_def)
  have d: "draw \<lparr>mantissa = 3, exponent = - 2\<rparr> 2 = 1"
    by (simp add: draw_def times_length_def round53_def round_even_shift_def Math_floor_def
        compute_bitlen)
  have run: "nextQuote \<lparr>quotes = [''A'', ''B''], currentIndex = Finite 0\<rparr> [\<lparr>mantissa = 3, exponent = - 2\<rparr>]
        = Some (\<lparr>quotes = [''A'', ''B''], currentIndex = Finite 1\<rparr>, [])"
    by (simp add: nextQuote_def pickNewIndex_def d)
  from currentQuote_null_iff_empty [of "\<lparr>quotes = ([] :: string list), currentIndex = Finite 0\<rparr>"
      "[] :: string list" "[]" "\<lparr>quotes = [], currentIndex = Finite 0\<rparr>" "[]"]
    currentQuote_null_iff_empty [of "\<lparr>quotes = [''A'', ''B''], currentIndex = Finite 0\<rparr>"
      "[] :: string list" "[\<lparr>mantissa = 3, exponent = - 2\<rparr>]"
      "\<lparr>quotes = [''A'', ''B''], currentIndex = Finite 1\<rparr>" "[]"]
    i1 i0 ok run
  show ?thesis by simp
qed

text \<open>
  C8. \<open>nextQuote\<close> leaves the collection as it was, contents and length: the state it
  returns is the state before with only \<open>currentIndex\<close> replaced. \<open>currentQuote\<close> reads
  the state and returns a value; it has no state to return.
\<close>

theorem nextQuote_keeps_quotes:
  assumes "nextQuote s rs = Some (s', rs')"
  shows "quotes s' = quotes s \<and> length (quotes s') = length (quotes s)
       \<and> s' = s\<lparr>currentIndex := currentIndex s'\<rparr>"
proof -
  from assms obtain n where "s' = s\<lparr>currentIndex := n\<rparr>"
    by (auto simp: nextQuote_def split: option.splits)
  then show ?thesis by simp
qed

theorem nextQuote_keeps_quotes_witness:
  "nextQuote \<lparr>quotes = [''A'', ''B''], currentIndex = Finite 0\<rparr>
       [\<lparr>mantissa = 1, exponent = - 2\<rparr>, \<lparr>mantissa = 3, exponent = - 2\<rparr>]
     = Some (\<lparr>quotes = [''A'', ''B''], currentIndex = Finite 1\<rparr>, [])
   \<and> quotes \<lparr>quotes = [''A'', ''B''], currentIndex = Finite 1\<rparr>
     = quotes \<lparr>quotes = [''A'', ''B''], currentIndex = Finite 0\<rparr>"
proof -
  have d1: "draw \<lparr>mantissa = 1, exponent = - 2\<rparr> 2 = 0"
    by (simp add: draw_def times_length_def round53_def round_even_shift_def Math_floor_def
        compute_bitlen)
  have d2: "draw \<lparr>mantissa = 3, exponent = - 2\<rparr> 2 = 1"
    by (simp add: draw_def times_length_def round53_def round_even_shift_def Math_floor_def
        compute_bitlen)
  have run: "nextQuote \<lparr>quotes = [''A'', ''B''], currentIndex = Finite 0\<rparr>
       [\<lparr>mantissa = 1, exponent = - 2\<rparr>, \<lparr>mantissa = 3, exponent = - 2\<rparr>]
     = Some (\<lparr>quotes = [''A'', ''B''], currentIndex = Finite 1\<rparr>, [])"
    by (simp add: nextQuote_def pickNewIndex_def d1 d2)
  from nextQuote_keeps_quotes [OF run] run
  show ?thesis by simp
qed

text \<open>
  C9. \<open>currentQuote\<close> is total when the index is out of range: for a non-empty collection
  and an index at or beyond the length, the array read gives \<open>undefined\<close> and the
  coalescing turns it into \<open>null\<close>; the result is never \<open>undefined\<close>.
\<close>

theorem currentQuote_out_of_range_is_null:
  assumes "quotes s \<noteq> []" and "currentIndex s = Finite x"
    and "of_int (int (length (quotes s))) \<le> x"
  shows "array_get (quotes s) (currentIndex s) = Undefined \<and> currentQuote s = Null"
  using assms by (simp add: currentQuote_def)

theorem currentQuote_out_of_range_is_null_witness:
  "quotes \<lparr>quotes = [''A'', ''B''], currentIndex = Finite 2\<rparr> \<noteq> []
   \<and> currentIndex \<lparr>quotes = [''A'', ''B''], currentIndex = Finite 2\<rparr> = Finite 2
   \<and> of_int (int (length (quotes \<lparr>quotes = [''A'', ''B''], currentIndex = Finite 2\<rparr>))) \<le> (2 :: real)
   \<and> array_get (quotes \<lparr>quotes = [''A'', ''B''], currentIndex = Finite 2\<rparr>)
        (currentIndex \<lparr>quotes = [''A'', ''B''], currentIndex = Finite 2\<rparr>) = Undefined
   \<and> currentQuote \<lparr>quotes = [''A'', ''B''], currentIndex = Finite 2\<rparr> = Null"
  using currentQuote_out_of_range_is_null [of "\<lparr>quotes = [''A'', ''B''], currentIndex = Finite 2\<rparr>" 2]
  by simp

text \<open>
  C10 as stated, for every current value: with two quotes or more and \<open>NaN\<close> as the
  current index, the loop test \<open>next === current\<close> fails at once; \<open>pickNewIndex\<close>
  returns \<open>NaN\<close> without a draw and \<open>nextQuote\<close> leaves the index as it was.
\<close>

theorem pickNewIndex_NaN_counterexample:
  "pickNewIndex NaN 2 [] = Some (NaN, [])
   \<and> \<not> in_range NaN 2
   \<and> nextQuote \<lparr>quotes = [''A'', ''B''], currentIndex = NaN\<rparr> []
       = Some (\<lparr>quotes = [''A'', ''B''], currentIndex = NaN\<rparr>, [])
   \<and> \<not> index_in_range \<lparr>quotes = [''A'', ''B''], currentIndex = NaN\<rparr>"
  by (simp add: nextQuote_def pickNewIndex_def index_in_range_def)

text \<open>
  C10, amended. For every length of at least \<open>1\<close> and every current number other than
  \<open>NaN\<close>, in range or not, a run of \<open>pickNewIndex\<close> that returns gives an integer in
  \<open>[0, length)\<close>; so with a non-empty collection \<open>nextQuote\<close> leaves the index in range
  whatever number other than \<open>NaN\<close> it was before. From \<open>NaN\<close> the range is restored
  only when the length is \<open>1\<close>: with a length of two or more \<open>pickNewIndex\<close> returns
  \<open>NaN\<close>.
\<close>

theorem pickNewIndex_restores_range:
  assumes "random_ok rs"
  shows "(1 \<le> len \<and> (current \<noteq> NaN \<or> len = 1) \<and> pickNewIndex current len rs = Some (n, rs')
            \<longrightarrow> in_range n len)
       \<and> (quotes s \<noteq> [] \<and> (currentIndex s \<noteq> NaN \<or> length (quotes s) = 1)
            \<and> nextQuote s rs = Some (s', rs'') \<longrightarrow> index_in_range s')
       \<and> (2 \<le> len \<longrightarrow> pickNewIndex NaN len rs = Some (NaN, rs))"
proof -
  have pick: "in_range n len"
    if "1 \<le> len" and "current \<noteq> NaN \<or> len = 1" and "pickNewIndex current len rs = Some (n, rs')"
    using pickNewIndex_in_range [OF that(3) assms that(1) that(2)] .
  have nxt: "index_in_range s'"
    if ne: "quotes s \<noteq> []" and c: "currentIndex s \<noteq> NaN \<or> length (quotes s) = 1"
      and run: "nextQuote s rs = Some (s', rs'')"
  proof -
    from ne have len: "1 \<le> int (length (quotes s))"
      by (cases "quotes s") simp_all
    from c have "currentIndex s \<noteq> NaN \<or> int (length (quotes s)) = 1" by auto
    from pickNewIndex_in_range [OF nextQuote_SomeD(1) [OF run] assms len this]
      nextQuote_SomeD(3) [OF run]
    show ?thesis by (simp add: index_in_range_def)
  qed
  have nan: "pickNewIndex NaN len rs = Some (NaN, rs)" if "2 \<le> len"
    using that by (simp add: pickNewIndex_NaN)
  from pick nxt nan show ?thesis by blast
qed

theorem pickNewIndex_restores_range_witness:
  "random_ok [\<lparr>mantissa = 1, exponent = - 4\<rparr>, \<lparr>mantissa = 1228254443828317, exponent = - 52\<rparr>]
   \<and> pickNewIndex (Finite 17) 11 [\<lparr>mantissa = 1, exponent = - 4\<rparr>, \<lparr>mantissa = 1228254443828317, exponent = - 52\<rparr>]
       = Some (Finite 0, [\<lparr>mantissa = 1228254443828317, exponent = - 52\<rparr>])
   \<and> in_range (Finite 0) 11
   \<and> nextQuote \<lparr>quotes = [''A'', ''B'', ''C''], currentIndex = Finite (- 1)\<rparr>
        [\<lparr>mantissa = 1, exponent = - 4\<rparr>, \<lparr>mantissa = 1228254443828317, exponent = - 52\<rparr>]
        = Some (\<lparr>quotes = [''A'', ''B'', ''C''], currentIndex = Finite 0\<rparr>,
                [\<lparr>mantissa = 1228254443828317, exponent = - 52\<rparr>])
   \<and> index_in_range \<lparr>quotes = [''A'', ''B'', ''C''], currentIndex = Finite 0\<rparr>
   \<and> pickNewIndex NaN 11 [\<lparr>mantissa = 1, exponent = - 4\<rparr>, \<lparr>mantissa = 1228254443828317, exponent = - 52\<rparr>]
       = Some (NaN, [\<lparr>mantissa = 1, exponent = - 4\<rparr>, \<lparr>mantissa = 1228254443828317, exponent = - 52\<rparr>])"
proof -
  let ?rs = "[\<lparr>mantissa = 1, exponent = - 4\<rparr>, \<lparr>mantissa = 1228254443828317, exponent = - 52\<rparr>]"
  let ?s = "\<lparr>quotes = [''A'', ''B'', ''C''], currentIndex = Finite (- 1)\<rparr>"
  let ?s' = "\<lparr>quotes = [''A'', ''B'', ''C''], currentIndex = Finite 0\<rparr>"
  have ok: "random_ok ?rs"
    by (simp add: random_ok_def random_value_def)
  have d11: "draw \<lparr>mantissa = 1, exponent = - 4\<rparr> 11 = 0"
    by (simp add: draw_def times_length_def round53_def round_even_shift_def Math_floor_def
        compute_bitlen)
  have d3: "draw \<lparr>mantissa = 1, exponent = - 4\<rparr> 3 = 0"
    by (simp add: draw_def times_length_def round53_def round_even_shift_def Math_floor_def
        compute_bitlen)
  have p: "pickNewIndex (Finite 17) 11 ?rs = Some (Finite 0, [\<lparr>mantissa = 1228254443828317, exponent = - 52\<rparr>])"
    by (simp add: pickNewIndex_def d11)
  have run: "nextQuote ?s ?rs = Some (?s', [\<lparr>mantissa = 1228254443828317, exponent = - 52\<rparr>])"
    by (simp add: nextQuote_def pickNewIndex_def d3)
  from pickNewIndex_restores_range [OF ok, of 11 "Finite 17" "Finite 0"
      "[\<lparr>mantissa = 1228254443828317, exponent = - 52\<rparr>]" ?s ?s'
      "[\<lparr>mantissa = 1228254443828317, exponent = - 52\<rparr>]"] ok p run
  show ?thesis by simp
qed

section \<open>Properties of the theme toggle\<close>

lemma applyTheme_available:
  assumes "localStorage s = Some m"
  shows "applyTheme dark s =
     (Inr (), s\<lparr>data_theme := Some (theme_name dark),
                localStorage := Some (m(STORAGE_KEY \<mapsto> theme_name dark))\<rparr>)"
  using assms by (simp add: applyTheme_def setItem_def Let_def)

lemma onMounted_available:
  assumes "localStorage s = Some m"
  shows "onMounted s =
     (let dark = (if m STORAGE_KEY = Some ''dark'' \<or> m STORAGE_KEY = Some ''light''
                  then m STORAGE_KEY = Some ''dark'' else prefersDark s)
      in (Inr (), s\<lparr>isDark := dark, data_theme := Some (theme_name dark),
                     localStorage := Some (m(STORAGE_KEY \<mapsto> theme_name dark))\<rparr>))"
  using assms
  by (simp add: onMounted_def getItem_def applyTheme_def setItem_def prefersDark_def Let_def)

lemma onMounted_unavailable:
  assumes "localStorage s = None"
  shows "onMounted s = (Inl SecurityError, s)"
  using assms by (simp add: onMounted_def getItem_def)

text \<open>
  C4. Round trip: with a store that accepts the write, \<open>applyTheme pref\<close> followed by
  a reload and \<open>onMounted\<close> resolves \<open>pref\<close> again, for both preferences and whatever
  the media query answers.
\<close>

theorem applyTheme_onMounted_roundtrip:
  assumes "localStorage s = Some m"
  shows "fst (applyTheme pref s) = Inr ()
       \<and> fst (onMounted (reload attr (snd (applyTheme pref s)))) = Inr ()
       \<and> isDark (snd (onMounted (reload attr (snd (applyTheme pref s))))) = pref
       \<and> data_theme (snd (onMounted (reload attr (snd (applyTheme pref s))))) = Some (theme_name pref)"
proof -
  let ?s1 = "reload attr (snd (applyTheme pref s))"
  have a: "applyTheme pref s =
     (Inr (), s\<lparr>data_theme := Some (theme_name pref),
                localStorage := Some (m(STORAGE_KEY \<mapsto> theme_name pref))\<rparr>)"
    by (rule applyTheme_available [OF assms])
  then have st: "localStorage ?s1 = Some (m(STORAGE_KEY \<mapsto> theme_name pref))"
    by (simp add: reload_def)
  have saved: "(m(STORAGE_KEY \<mapsto> theme_name pref)) STORAGE_KEY = Some (theme_name pref)"
    by simp
  show ?thesis
    using a onMounted_available [OF st] saved
    by (cases pref) (simp_all add: theme_name_def Let_def)
qed

theorem applyTheme_onMounted_roundtrip_witness:
  "localStorage \<lparr>isDark = False, localStorage = Some Map.empty,
      matchMedia = Some (\<lambda>q. False), data_theme = None\<rparr> = Some Map.empty
   \<and> isDark (snd (onMounted (reload None (snd (applyTheme True
        \<lparr>isDark = False, localStorage = Some Map.empty,
         matchMedia = Some (\<lambda>q. False), data_theme = None\<rparr>))))) = True
   \<and> localStorage \<lparr>isDark = True, localStorage = Some [STORAGE_KEY \<mapsto> ''dark''],
      matchMedia = Some (\<lambda>q. True), data_theme = Some ''dark''\<rparr> = Some [STORAGE_KEY \<mapsto> ''dark'']
   \<and> isDark (snd (onMounted (reload None (snd (applyTheme False
        \<lparr>isDark = True, localStorage = Some [STORAGE_KEY \<mapsto> ''dark''],
         matchMedia = Some (\<lambda>q. True), data_theme = Some ''dark''\<rparr>))))) = False"
  using applyTheme_onMounted_roundtrip [of
      "\<lparr>isDark = False, localStorage = Some Map.empty,
        matchMedia = Some (\<lambda>q. False), data_theme = None\<rparr>" Map.empty True None]
    applyTheme_onMounted_roundtrip [of
      "\<lparr>isDark = True, localStorage = Some [STORAGE_KEY \<mapsto> ''dark''],
        matchMedia = Some (\<lambda>q. True), data_theme = Some ''dark''\<rparr>"
      "[STORAGE_KEY \<mapsto> ''dark'']" False None]
  by simp

text \<open>
  C5. With nothing stored under the key, \<open>onMounted\<close> resolves dark when the media
  query is available and matches, and light when it does not match or is not available.
\<close>

theorem onMounted_without_saved_value:
  assumes "localStorage s = Some m" and "m STORAGE_KEY = None"
  shows "fst (onMounted s) = Inr ()
       \<and> (matchMedia s = Some mm \<and> mm ''(prefers-color-scheme: dark)''
            \<longrightarrow> isDark (snd (onMounted s)) \<and> data_theme (snd (onMounted s)) = Some ''dark'')
       \<and> (matchMedia s = Some mm \<and> \<not> mm ''(prefers-color-scheme: dark)''
            \<longrightarrow> \<not> isDark (snd (onMounted s)) \<and> data_theme (snd (onMounted s)) = Some ''light'')
       \<and> (matchMedia s = None
            \<longrightarrow> \<not> isDark (snd (onMounted s)) \<and> data_theme (snd (onMounted s)) = Some ''light'')"
  using onMounted_available [OF assms(1)] assms(2)
  by (simp add: Let_def prefersDark_def theme_name_def)

theorem onMounted_without_saved_value_witness:
  "localStorage \<lparr>isDark = False, localStorage = Some Map.empty,
      matchMedia = Some (\<lambda>q. q = ''(prefers-color-scheme: dark)''), data_theme = None\<rparr> = Some Map.empty
   \<and> Map.empty STORAGE_KEY = (None :: string option)
   \<and> isDark (snd (onMounted \<lparr>isDark = False, localStorage = Some Map.empty,
      matchMedia = Some (\<lambda>q. q = ''(prefers-color-scheme: dark)''), data_theme = None\<rparr>))
   \<and> localStorage \<lparr>isDark = False, localStorage = Some Map.empty,
      matchMedia = None, data_theme = None\<rparr> = Some Map.empty
   \<and> \<not> isDark (snd (onMounted \<lparr>isDark = False, localStorage = Some Map.empty,
      matchMedia = None, data_theme = None\<rparr>))"
  using onMounted_without_saved_value [of
      "\<lparr>isDark = False, localStorage = Some Map.empty,
        matchMedia = Some (\<lambda>q. q = ''(prefers-color-scheme: dark)''), data_theme = None\<rparr>"
      Map.empty "\<lambda>q. q = ''(prefers-color-scheme: dark)''"]
    onMounted_without_saved_value [of
      "\<lparr>isDark = False, localStorage = Some Map.empty,
        matchMedia = None, data_theme = None\<rparr>"
      Map.empty "\<lambda>q. False"]
  by simp

text \<open>
  C6 as stated, for an unavailable store: \<open>localStorage.getItem\<close> raises and the
  exception leaves \<open>onMounted\<close>.
\<close>

theorem onMounted_storage_unavailable_counterexample:
  "fst (onMounted \<lparr>isDark = False, localStorage = None, matchMedia = None, data_theme = None\<rparr>)
     = Inl SecurityError"
  by (simp add: onMounted_def getItem_def)

text \<open>
  C6, amended. An unavailable media query does not make the hook fail: with a readable
  store \<open>onMounted\<close> completes, resolving dark exactly when the stored value is
  \<open>"dark"\<close> and light otherwise. An unavailable store is not guarded: the read raises,
  nothing is resolved and nothing is written.
\<close>

theorem onMounted_unavailable_platform:
  "(localStorage s = Some m \<and> matchMedia s = None \<longrightarrow>
      fst (onMounted s) = Inr ()
      \<and> isDark (snd (onMounted s)) = (m STORAGE_KEY = Some ''dark''))
   \<and> (localStorage s = None \<longrightarrow> onMounted s = (Inl SecurityError, s))"
proof (intro conjI impI)
  assume a: "localStorage s = Some m \<and> matchMedia s = None"
  then have "localStorage s = Some m" ..
  from onMounted_available [OF this] a
  show "fst (onMounted s) = Inr ()"
    and "isDark (snd (onMounted s)) = (m STORAGE_KEY = Some ''dark'')"
    by (auto simp: Let_def prefersDark_def)
next
  assume "localStorage s = None"
  then show "onMounted s = (Inl SecurityError, s)"
    by (rule onMounted_unavailable)
qed

theorem onMounted_unavailable_platform_witness:
  "localStorage \<lparr>isDark = False, localStorage = Some Map.empty, matchMedia = None, data_theme = None\<rparr>
     = Some Map.empty
   \<and> matchMedia \<lparr>isDark = False, localStorage = Some Map.empty, matchMedia = None, data_theme = None\<rparr>
     = None
   \<and> fst (onMounted \<lparr>isDark = False, localStorage = Some Map.empty, matchMedia = None, data_theme = None\<rparr>)
     = Inr ()
   \<and> \<not> isDark (snd (onMounted \<lparr>isDark = False, localStorage = Some Map.empty, matchMedia = None, data_theme = None\<rparr>))
   \<and> localStorage \<lparr>isDark = True, localStorage = None, matchMedia = None, data_theme = None\<rparr> = None
   \<and> onMounted \<lparr>isDark = True, localStorage = None, matchMedia = None, data_theme = None\<rparr>
     = (Inl SecurityError, \<lparr>isDark = True, localStorage = None, matchMedia = None, data_theme = None\<rparr>)"
  using onMounted_unavailable_platform [of
      "\<lparr>isDark = False, localStorage = Some Map.empty, matchMedia = None, data_theme = None\<rparr>"
      Map.empty]
    onMounted_unavailable_platform [of
      "\<lparr>isDark = True, localStorage = None, matchMedia = None, data_theme = None\<rparr>"
      Map.empty]
  by simp

text \<open>
  C7. \<open>onMounted\<close> adopts the stored value exactly when it is \<open>"dark"\<close> or \<open>"light"\<close>,
  whatever the media query answers. For every other stored value (nothing stored, or
  any other string) the store is ignored and the media query decides: dark when it is
  available and matches, light when it does not match or is not available.
\<close>

theorem onMounted_adopts_valid_saved_value:
  assumes "localStorage s = Some m"
  shows "fst (onMounted s) = Inr ()
       \<and> (m STORAGE_KEY = Some ''dark'' \<longrightarrow>
            isDark (snd (onMounted s)) \<and> data_theme (snd (onMounted s)) = Some ''dark'')
       \<and> (m STORAGE_KEY = Some ''light'' \<longrightarrow>
            \<not> isDark (snd (onMounted s)) \<and> data_theme (snd (onMounted s)) = Some ''light'')
       \<and> (m STORAGE_KEY \<noteq> Some ''dark'' \<and> m STORAGE_KEY \<noteq> Some ''light'' \<longrightarrow>
            (matchMedia s = Some mm \<and> mm ''(prefers-color-scheme: dark)''
               \<longrightarrow> isDark (snd (onMounted s)) \<and> data_theme (snd (onMounted s)) = Some ''dark'')
          \<and> (matchMedia s = Some mm \<and> \<not> mm ''(prefers-color-scheme: dark)''
               \<longrightarrow> \<not> isDark (snd (onMounted s)) \<and> data_theme (snd (onMounted s)) = Some ''light'')
          \<and> (matchMedia s = None
               \<longrightarrow> \<not> isDark (snd (onMounted s)) \<and> data_theme (snd (onMounted s)) = Some ''light''))"
  using onMounted_available [OF assms]
  by (simp add: Let_def theme_name_def prefersDark_def)

theorem onMounted_adopts_valid_saved_value_witness:
  "localStorage \<lparr>isDark = False, localStorage = Some [STORAGE_KEY \<mapsto> ''dark''],
      matchMedia = Some (\<lambda>q. False), data_theme = None\<rparr> = Some [STORAGE_KEY \<mapsto> ''dark'']
   \<and> [STORAGE_KEY \<mapsto> ''dark''] STORAGE_KEY = Some ''dark''
   \<and> isDark (snd (onMounted \<lparr>isDark = False, localStorage = Some [STORAGE_KEY \<mapsto> ''dark''],
      matchMedia = Some (\<lambda>q. False), data_theme = None\<rparr>))
   \<and> localStorage \<lparr>isDark = False, localStorage = Some [STORAGE_KEY \<mapsto> ''light''],
      matchMedia = Some (\<lambda>q. True), data_theme = None\<rparr> = Some [STORAGE_KEY \<mapsto> ''light'']
   \<and> [STORAGE_KEY \<mapsto> ''light''] STORAGE_KEY = Some ''light''
   \<and> \<not> isDark (snd (onMounted \<lparr>isDark = False, localStorage = Some [STORAGE_KEY \<mapsto> ''light''],
      matchMedia = Some (\<lambda>q. True), data_theme = None\<rparr>))
   \<and> localStorage \<lparr>isDark = False, localStorage = Some [STORAGE_KEY \<mapsto> ''blue''],
      matchMedia = Some (\<lambda>q. q = ''(prefers-color-scheme: dark)''), data_theme = None\<rparr>
       = Some [STORAGE_KEY \<mapsto> ''blue'']
   \<and> [STORAGE_KEY \<mapsto> ''blue''] STORAGE_KEY \<noteq> Some ''dark''
   \<and> [STORAGE_KEY \<mapsto> ''blue''] STORAGE_KEY \<noteq> Some ''light''
   \<and> isDark (snd (onMounted \<lparr>isDark = False, localStorage = Some [STORAGE_KEY \<mapsto> ''blue''],
      matchMedia = Some (\<lambda>q. q = ''(prefers-color-scheme: dark)''), data_theme = None\<rparr>))
   \<and> localStorage \<lparr>isDark = True, localStorage = Some [STORAGE_KEY \<mapsto> ''blue''],
      matchMedia = Some (\<lambda>q. q \<noteq> ''(prefers-color-scheme: dark)''), data_theme = None\<rparr>
       = Some [STORAGE_KEY \<mapsto> ''blue'']
   \<and> \<not> isDark (snd (onMounted \<lparr>isDark = True, localStorage = Some [STORAGE_KEY \<mapsto> ''blue''],
      matchMedia = Some (\<lambda>q. q \<noteq> ''(prefers-color-scheme: dark)''), data_theme = None\<rparr>))
   \<and> localStorage \<lparr>isDark = True, localStorage = Some [''other.key'' \<mapsto> ''dark''],
      matchMedia = None, data_theme = None\<rparr> = Some [''other.key'' \<mapsto> ''dark'']
   \<and> [''other.key'' \<mapsto> ''dark''] STORAGE_KEY \<noteq> Some ''dark''
   \<and> \<not> isDark (snd (onMounted \<lparr>isDark = True, localStorage = Some [''other.key'' \<mapsto> ''dark''],
      matchMedia = None, data_theme = None\<rparr>))"
  using onMounted_adopts_valid_saved_value [of
      "\<lparr>isDark = False, localStorage = Some [STORAGE_KEY \<mapsto> ''dark''],
        matchMedia = Some (\<lambda>q. False), data_theme = None\<rparr>" "[STORAGE_KEY \<mapsto> ''dark'']"
      "\<lambda>q. False"]
    onMounted_adopts_valid_saved_value [of
      "\<lparr>isDark = False, localStorage = Some [STORAGE_KEY \<mapsto> ''light''],
        matchMedia = Some (\<lambda>q. True), data_theme = None\<rparr>" "[STORAGE_KEY \<mapsto> ''light'']"
      "\<lambda>q. True"]
    onMounted_adopts_valid_saved_value [of
      "\<lparr>isDark = False, localStorage = Some [STORAGE_KEY \<mapsto> ''blue''],
        matchMedia = Some (\<lambda>q. q = ''(prefers-color-scheme: dark)''), data_theme = None\<rparr>"
      "[STORAGE_KEY \<mapsto> ''blue'']" "\<lambda>q. q = ''(prefers-color-scheme: dark)''"]
    onMounted_adopts_valid_saved_value [of
      "\<lparr>isDark = True, localStorage = Some [STORAGE_KEY \<mapsto> ''blue''],
        matchMedia = Some (\<lambda>q. q \<noteq> ''(prefers-color-scheme: dark)''), data_theme = None\<rparr>"
      "[STORAGE_KEY \<mapsto> ''blue'']" "\<lambda>q. q \<noteq> ''(prefers-color-scheme: dark)''"]
    onMounted_adopts_valid_saved_value [of
      "\<lparr>isDark = True, localStorage = Some [''other.key'' \<mapsto> ''dark''],
        matchMedia = None, data_theme = None\<rparr>" "[''other.key'' \<mapsto> ''dark'']"
      "\<lambda>q. True"]
  by (simp add: STORAGE_KEY_def)

end
